theory Spec2Isabelle
  imports Complex_Main
begin

section \<open>Shared Python conventions\<close>

text \<open>
  Python floats are modelled as exact reals, Python's unbounded integers as \<open>int\<close>
  (and as \<open>nat\<close> for the two counters that start at zero and are only ever
  incremented). Every place where the source can raise is a branch of the model:
  a true division by zero is \<open>ZeroDivisionError\<close>, \<open>min\<close>/\<open>max\<close> of an empty
  sequence is \<open>ValueError\<close>.
\<close>

datatype py_error = ZeroDivisionError | ValueError

definition py_truediv :: "real \<Rightarrow> real \<Rightarrow> py_error + real" where
  "py_truediv a b = (if b = 0 then Inl ZeroDivisionError else Inr (a / b))"

fun py_min :: "('a::linorder) list \<Rightarrow> py_error + 'a" where
  "py_min [] = Inl ValueError"
| "py_min (x # xs) = Inr (fold min xs x)"

fun py_max :: "('a::linorder) list \<Rightarrow> py_error + 'a" where
  "py_max [] = Inl ValueError"
| "py_max (x # xs) = Inr (fold max xs x)"

section \<open>monitoring/fee\_strategy.py: AdaptiveFeeStrategy\<close>

record fee_strategy =
  base_multiplier :: real
  max_multiplier :: real
  adapt_threshold :: int
  attempts :: nat
  successes :: nat
  success_rate :: real
  block_congestion :: real
  recent_fees :: "real list"
  last_fee :: "real option"

text \<open>\<open>__init__(base_multiplier=0.5, max_multiplier=2.0, adapt_threshold=5)\<close>\<close>

definition fee_strategy_init :: "real \<Rightarrow> real \<Rightarrow> int \<Rightarrow> fee_strategy" where
  "fee_strategy_init bm mm thr =
     \<lparr>base_multiplier = bm, max_multiplier = mm, adapt_threshold = thr,
      attempts = 0, successes = 0, success_rate = 0.5, block_congestion = 0,
      recent_fees = [], last_fee = None\<rparr>"

definition default_fee_strategy :: fee_strategy where
  "default_fee_strategy = fee_strategy_init 0.5 2.0 5"

text \<open>
  \<open>update_statistics(success=None, block_time=None)\<close>. The division
  \<open>successes / attempts\<close> happens after the increment, so the divisor is at least 1.
\<close>

definition update_statistics :: "bool option \<Rightarrow> real option \<Rightarrow> fee_strategy \<Rightarrow> fee_strategy" where
  "update_statistics success block_time s =
     (let s1 = (case success of
                  None \<Rightarrow> s
                | Some ok \<Rightarrow>
                    (let a = attempts s + 1;
                         k = (if ok then successes s + 1 else successes s)
                     in s\<lparr>attempts := a, successes := k, success_rate := real k / real a\<rparr>))
      in case block_time of
           None \<Rightarrow> s1
         | Some t \<Rightarrow>
             s1\<lparr>block_congestion :=
                  (if t > 12 then min 1 (block_congestion s1 + 0.1)
                   else if t > 9 then min 0.8 (block_congestion s1 + 0.05)
                   else if t > 6 then min 0.5 (block_congestion s1 + 0.02)
                   else max 0 (block_congestion s1 - 0.05))\<rparr>)"

text \<open>The multiplier chosen once \<open>attempts > adapt_threshold\<close> (lines 46 to 57).\<close>

definition tier_modifier :: "fee_strategy \<Rightarrow> real" where
  "tier_modifier s =
     (if success_rate s < 0.2 then
        min (max_multiplier s) (max_multiplier s - 0.5 + block_congestion s * 0.5)
      else if success_rate s < 0.5 then
        min (max_multiplier s - 0.2) (base_multiplier s + 0.5 + block_congestion s * 0.3)
      else base_multiplier s + block_congestion s * 0.2)"

text \<open>
  \<open>compute_priority_fee(base_cost)\<close> returns the fee and the updated object:
  \<open>last_fee\<close> is set, the fee is appended, and \<open>pop(0)\<close> drops the head when the
  list has grown beyond ten entries.
\<close>

definition compute_priority_fee :: "real \<Rightarrow> fee_strategy \<Rightarrow> real \<times> fee_strategy" where
  "compute_priority_fee base_cost s =
     (let fee = (if int (attempts s) > adapt_threshold s
                 then base_cost * tier_modifier s
                 else base_cost * base_multiplier s);
          fees = recent_fees s @ [fee]
      in (fee, s\<lparr>last_fee := Some fee,
                 recent_fees := (if length fees > 10 then tl fees else fees)\<rparr>))"

record fee_statistics =
  current_multiplier :: real
  stat_success_rate :: real
  congestion :: real
  avg_fee :: real
  min_fee :: real
  max_fee :: real

text \<open>
  The expression of line 84: \<open>self.last_fee\<close> is falsy when it is \<open>None\<close> or
  \<open>0.0\<close>; otherwise both divisions are carried out.
\<close>

definition reported_multiplier :: "fee_strategy \<Rightarrow> py_error + real" where
  "reported_multiplier s =
     (case last_fee s of
        None \<Rightarrow> Inr (base_multiplier s)
      | Some lf \<Rightarrow>
          if lf = 0 then Inr (base_multiplier s)
          else (case py_truediv lf (base_multiplier s) of
                  Inl e \<Rightarrow> Inl e
                | Inr q \<Rightarrow> py_truediv lf q))"

definition get_fee_statistics :: "fee_strategy \<Rightarrow> py_error + fee_statistics" where
  "get_fee_statistics s =
     (if recent_fees s = [] then
        Inr \<lparr>current_multiplier = base_multiplier s, stat_success_rate = success_rate s,
             congestion = block_congestion s, avg_fee = 0, min_fee = 0, max_fee = 0\<rparr>
      else
        (case reported_multiplier s of
           Inl e \<Rightarrow> Inl e
         | Inr cm \<Rightarrow>
        (case py_truediv (sum_list (recent_fees s)) (real (length (recent_fees s))) of
           Inl e \<Rightarrow> Inl e
         | Inr av \<Rightarrow>
        (case py_min (recent_fees s) of
           Inl e \<Rightarrow> Inl e
         | Inr mn \<Rightarrow>
        (case py_max (recent_fees s) of
           Inl e \<Rightarrow> Inl e
         | Inr mx \<Rightarrow>
             Inr \<lparr>current_multiplier = cm, stat_success_rate = success_rate s,
                  congestion = block_congestion s, avg_fee = av, min_fee = mn,
                  max_fee = mx\<rparr>)))))"

text \<open>
  The controller is driven through its two mutating entry points; a reachable state is
  the result of running any list of such calls from a freshly constructed object.
\<close>

datatype fee_op = UpdateStatistics "bool option" "real option" | ComputePriorityFee real

fun apply_fee_op :: "fee_op \<Rightarrow> fee_strategy \<Rightarrow> fee_strategy" where
  "apply_fee_op (UpdateStatistics success block_time) s = update_statistics success block_time s"
| "apply_fee_op (ComputePriorityFee base_cost) s = snd (compute_priority_fee base_cost s)"

definition run_fee_ops :: "fee_op list \<Rightarrow> fee_strategy \<Rightarrow> fee_strategy" where
  "run_fee_ops ops s = fold apply_fee_op ops s"

fun records_outcome :: "fee_op \<Rightarrow> bool" where
  "records_outcome (UpdateStatistics success block_time) = (success \<noteq> None)"
| "records_outcome (ComputePriorityFee base_cost) = False"

section \<open>settings/block\_monitor.py: EnhancedBlockMonitor\<close>

text \<open>
  A \<open>datetime\<close> has microsecond resolution, so a point in time is the integer number of
  microseconds since \<open>datetime.min\<close>: \<open>datetime.min\<close> is 0 and \<open>timedelta(seconds=10)\<close>
  is 10000000. \<open>datetime.now()\<close> is an argument of every function that reads the clock.
\<close>

definition TEMPO :: int where
  "TEMPO = 360"

text \<open>\<open>BLOCK_WINDOW = range(10, 60)\<close>\<close>

definition BLOCK_WINDOW :: "int list" where
  "BLOCK_WINDOW = [10..59]"

definition freshness_horizon :: int where
  "freshness_horizon = 10 * 1000000"

record block_monitor =
  current_block :: "int option"
  last_updated :: int
  taostats_api_key :: "string option"
  subscan_api_key :: "string option"
  tempo :: int
  block_window :: "int list"

definition block_monitor_init :: "string option \<Rightarrow> string option \<Rightarrow> block_monitor" where
  "block_monitor_init taostats_key subscan_key =
     \<lparr>current_block = None, last_updated = 0,
      taostats_api_key = taostats_key, subscan_api_key = subscan_key,
      tempo = TEMPO, block_window = BLOCK_WINDOW\<rparr>"

text \<open>
  The dictionary returned by \<open>_get_window_info\<close> has one of three shapes, told apart by
  its keys. The \<open>status\<close> string is determined by the shape: \<open>Unknown\<close>,
  \<open>WINDOW ACTIVE - {blocks_left} blocks left\<close>, \<open>Next window in ~{next_window} blocks\<close>.
\<close>

datatype window_info =
    Unknown
  | WindowActive (block_in_tempo: int) (blocks_left: int)
  | NextWindow (block_in_tempo: int) (next_window: int)

fun in_window :: "window_info \<Rightarrow> bool" where
  "in_window Unknown = False"
| "in_window (WindowActive b l) = True"
| "in_window (NextWindow b n) = False"

text \<open>
  \<open>_get_window_info(block)\<close>. Python's \<open>%\<close> takes the sign of the divisor, as \<open>mod\<close>
  on \<open>int\<close> does, and raises on a zero divisor.
\<close>

definition get_window_info :: "block_monitor \<Rightarrow> int option \<Rightarrow> py_error + window_info" where
  "get_window_info m block =
     (case block of
        None \<Rightarrow> Inr Unknown
      | Some b \<Rightarrow>
          if tempo m = 0 then Inl ZeroDivisionError
          else
            (let bit = b mod tempo m in
             if bit \<in> set (block_window m) then
               (case py_max (block_window m) of
                  Inl e \<Rightarrow> Inl e
                | Inr mx \<Rightarrow>
                    if mx - bit \<le> 0 then
                      (case py_min (block_window m) of
                         Inl e \<Rightarrow> Inl e
                       | Inr mn \<Rightarrow> Inr (WindowActive bit (mx - mn + tempo m)))
                    else Inr (WindowActive bit (mx - bit)))
             else
               (case py_min (map (\<lambda>w. if w > bit then w - bit else tempo m - bit + w)
                                 (block_window m)) of
                  Inl e \<Rightarrow> Inl e
                | Inr nw \<Rightarrow> Inr (NextWindow bit nw))))"

text \<open>
  \<open>get_current_block()\<close> at clock reading \<open>now\<close>: \<open>None\<close> stands for the pair
  \<open>(None, None)\<close>.
\<close>

definition get_current_block :: "block_monitor \<Rightarrow> int \<Rightarrow> py_error + (int \<times> window_info) option" where
  "get_current_block m now =
     (case current_block m of
        None \<Rightarrow> Inr None
      | Some b \<Rightarrow>
          if now - last_updated m < freshness_horizon then
            (case get_window_info m (Some b) of
               Inl e \<Rightarrow> Inl e
             | Inr wi \<Rightarrow> Inr (Some (b, wi)))
          else Inr None)"

text \<open>
  What one HTTP exchange of a probe amounts to: \<open>Raised\<close> when the request, the JSON
  decoding, the key test or \<open>int(...)\<close> raised; otherwise the status code and, when the
  payload holds the block field of that source, its value as an integer.
\<close>

datatype probe_reply = Raised | Reply int "int option"

text \<open>
  The body shared by the five \<open>_check_via_*\<close> methods, from the status test to the
  \<open>return\<close>. The call of \<open>_get_window_info\<close> for the debug line sits inside the
  \<open>try\<close>: if it raises, the assignment is never reached.
\<close>

definition check_reply :: "int \<Rightarrow> probe_reply \<Rightarrow> block_monitor \<Rightarrow> bool \<times> block_monitor" where
  "check_reply now r m =
     (case r of
        Raised \<Rightarrow> (False, m)
      | Reply status_code field \<Rightarrow>
          if status_code = 200 then
            (case field of
               None \<Rightarrow> (False, m)
             | Some new_block \<Rightarrow>
                 if current_block m \<noteq> Some new_block then
                   (case get_window_info m (Some new_block) of
                      Inl e \<Rightarrow> (False, m)
                    | Inr wi \<Rightarrow> (True, m\<lparr>current_block := Some new_block, last_updated := now\<rparr>))
                 else (True, m\<lparr>current_block := Some new_block, last_updated := now\<rparr>))
          else (False, m))"

text \<open>\<open>not key\<close> holds for \<open>None\<close> and for the empty string.\<close>

definition key_missing :: "string option \<Rightarrow> bool" where
  "key_missing k = (case k of None \<Rightarrow> True | Some v \<Rightarrow> v = [])"

definition check_via_taostats :: "int \<Rightarrow> probe_reply \<Rightarrow> block_monitor \<Rightarrow> bool \<times> block_monitor" where
  "check_via_taostats now r m =
     (if key_missing (taostats_api_key m) then (False, m) else check_reply now r m)"

definition check_via_subscan :: "int \<Rightarrow> probe_reply \<Rightarrow> block_monitor \<Rightarrow> bool \<times> block_monitor" where
  "check_via_subscan now r m =
     (if key_missing (subscan_api_key m) then (False, m) else check_reply now r m)"

definition check_via_polkadot_subscan :: "int \<Rightarrow> probe_reply \<Rightarrow> block_monitor \<Rightarrow> bool \<times> block_monitor" where
  "check_via_polkadot_subscan now r m = check_reply now r m"

definition check_via_bittensor_dashboard :: "int \<Rightarrow> probe_reply \<Rightarrow> block_monitor \<Rightarrow> bool \<times> block_monitor" where
  "check_via_bittensor_dashboard now r m = check_reply now r m"

definition check_via_finney_explorer :: "int \<Rightarrow> probe_reply \<Rightarrow> block_monitor \<Rightarrow> bool \<times> block_monitor" where
  "check_via_finney_explorer now r m = check_reply now r m"

datatype block_source = Taostats | Subscan | PolkadotSubscan | BittensorDashboard | FinneyExplorer

fun check_via :: "block_source \<Rightarrow> int \<Rightarrow> probe_reply \<Rightarrow> block_monitor \<Rightarrow> bool \<times> block_monitor" where
  "check_via Taostats = check_via_taostats"
| "check_via Subscan = check_via_subscan"
| "check_via PolkadotSubscan = check_via_polkadot_subscan"
| "check_via BittensorDashboard = check_via_bittensor_dashboard"
| "check_via FinneyExplorer = check_via_finney_explorer"

text \<open>
  One pass of the \<open>for method in methods\<close> loop of \<open>_monitor_blocks\<close>: the sources are
  tried in order and the loop breaks at the first success. \<open>world src\<close> is the clock
  reading and the reply that source would give.
\<close>

definition methods :: "block_source list" where
  "methods = [Taostats, Subscan, PolkadotSubscan, BittensorDashboard, FinneyExplorer]"

fun try_methods :: "block_source list \<Rightarrow> (block_source \<Rightarrow> int \<times> probe_reply) \<Rightarrow> block_monitor \<Rightarrow> block_monitor" where
  "try_methods [] world m = m"
| "try_methods (src # rest) world m =
     (case check_via src (fst (world src)) (snd (world src)) m of
        (success, m') \<Rightarrow> if success then m' else try_methods rest world m')"

definition monitor_tick :: "(block_source \<Rightarrow> int \<times> probe_reply) \<Rightarrow> block_monitor \<Rightarrow> block_monitor" where
  "monitor_tick world m = try_methods methods world m"

text \<open>Any sequence of probes, each with its source, clock reading and reply.\<close>

fun run_probes :: "(block_source \<times> int \<times> probe_reply) list \<Rightarrow> block_monitor \<Rightarrow> block_monitor" where
  "run_probes [] m = m"
| "run_probes ((src, now, r) # rest) m = run_probes rest (snd (check_via src now r m))"

section \<open>strategy/registration.py: RegistrationAssistant\<close>

record wallet =
  coldkey :: string
  hotkey :: string

text \<open>
  The chain client, the proof-of-work primitive and the clock are outside the program.
  One call of \<open>register_neuron\<close> sees them through the answers below; each external
  call either returns or raises. \<open>monitor\<close> is the block monitor as its background
  thread has left it when \<open>get_current_block\<close> is called.
\<close>

datatype 'a call = Raises | Returns 'a

record attempt_env =
  connect :: "unit call"
  is_hotkey_registered :: "bool call"
  get_burn_cost :: "real option call"
  get_balance :: "real call"
  monitor :: block_monitor
  clock :: int
  register :: "bool call"

text \<open>
  \<open>connect\<close> covers \<open>bt.wallet(...)\<close> and \<open>bt.subtensor(...)\<close>; \<open>register\<close> is
  \<open>bt.register(...)\<close>, \<open>Returns b\<close> with \<open>b\<close> the truth of \<open>result is True\<close>.
  Line 137, \<open>if current_block and window_info\<close>: block 0 is falsy, a dictionary with
  keys is truthy.
\<close>

definition window_closed :: "(int \<times> window_info) option \<Rightarrow> bool" where
  "window_closed obs =
     (case obs of
        None \<Rightarrow> False
      | Some (current, wi) \<Rightarrow> current \<noteq> 0 \<and> \<not> in_window wi)"

text \<open>
  \<open>register_neuron(wallet, netuid, use_priority_fee)\<close> returns its boolean and the
  updated fee controller. Every exception inside the \<open>try\<close> ends in the handler of
  lines 188 to 193, which records a failed attempt and returns \<open>False\<close>.
\<close>

definition register_neuron :: "attempt_env \<Rightarrow> bool \<Rightarrow> fee_strategy \<Rightarrow> bool \<times> fee_strategy" where
  "register_neuron env use_priority_fee fs =
     (case connect env of
        Raises \<Rightarrow> (False, update_statistics (Some False) None fs)
      | Returns u \<Rightarrow>
     (case is_hotkey_registered env of
        Raises \<Rightarrow> (False, update_statistics (Some False) None fs)
      | Returns registered \<Rightarrow>
          if registered then (True, fs)
          else
     (case get_burn_cost env of
        Raises \<Rightarrow> (False, update_statistics (Some False) None fs)
      | Returns None \<Rightarrow> (False, fs)
      | Returns (Some cost) \<Rightarrow>
     (case get_balance env of
        Raises \<Rightarrow> (False, update_statistics (Some False) None fs)
      | Returns balance \<Rightarrow>
          if balance < cost then (False, fs)
          else
     (case get_current_block (monitor env) (clock env) of
        Inl e \<Rightarrow> (False, update_statistics (Some False) None fs)
      | Inr obs \<Rightarrow>
          if window_closed obs then (False, fs)
          else
            (let fs1 = (if use_priority_fee then snd (compute_priority_fee cost fs) else fs)
             in case register env of
                  Raises \<Rightarrow> (False, update_statistics (Some False) None fs1)
                | Returns result \<Rightarrow> (result, update_statistics (Some result) None fs1)))))))"

text \<open>
  One pass of the body of the \<open>while\<close> loop of \<open>register_thread\<close>, after
  \<open>wallets.pop(0)\<close> has split the lane into \<open>wallet\<close> and \<open>rest\<close>.
  \<open>stop_after\<close> is \<open>stop_event.is_set()\<close> as read on line 203. The inter-attempt sleep
  changes no state. The handler of lines 215 to 219 is not reached: \<open>register_neuron\<close>
  catches every exception itself.
\<close>

record iteration_env =
  stop_at_head :: bool
  attempt :: attempt_env
  stop_after :: bool

definition lane_body :: "iteration_env \<Rightarrow> bool \<Rightarrow> wallet \<Rightarrow> wallet list \<Rightarrow> fee_strategy \<Rightarrow> wallet list \<times> fee_strategy" where
  "lane_body env use_priority_fee w rest fs =
     (case register_neuron (attempt env) use_priority_fee fs of
        (success, fs') \<Rightarrow>
          (if \<not> success \<and> \<not> stop_after env then rest @ [w] else rest, fs'))"

text \<open>
  \<open>register_thread\<close>: the loop need not end, so it runs on fuel. \<open>schedule i\<close> is what
  iteration \<open>i\<close> sees. The result is the lane and the fee controller at exit together
  with the credentials attempted, in order; \<open>None\<close> means the fuel ran out first.
\<close>

fun register_thread :: "nat \<Rightarrow> (nat \<Rightarrow> iteration_env) \<Rightarrow> nat \<Rightarrow> bool \<Rightarrow> wallet list \<Rightarrow> fee_strategy \<Rightarrow> wallet list
    \<Rightarrow> (wallet list \<times> fee_strategy \<times> wallet list) option" where
  "register_thread 0 schedule i use_priority_fee wallets fs attempted = None"
| "register_thread (Suc fuel) schedule i use_priority_fee wallets fs attempted =
     (if stop_at_head (schedule i) then Some (wallets, fs, attempted)
      else
        (case wallets of
           [] \<Rightarrow> Some (wallets, fs, attempted)
         | w # rest \<Rightarrow>
             (case lane_body (schedule i) use_priority_fee w rest fs of
                (wallets', fs') \<Rightarrow>
                  register_thread fuel schedule (Suc i) use_priority_fee wallets' fs'
                    (attempted @ [w]))))"

text \<open>
  The answers under which line 132 is reached and \<open>balance < cost\<close> holds there.
\<close>

definition underfunded :: "attempt_env \<Rightarrow> bool" where
  "underfunded env =
     (connect env = Returns ()
      \<and> is_hotkey_registered env = Returns False
      \<and> (case get_burn_cost env of
            Returns (Some cost) \<Rightarrow>
              (case get_balance env of Returns balance \<Rightarrow> balance < cost | Raises \<Rightarrow> False)
          | Returns None \<Rightarrow> False
          | Raises \<Rightarrow> False))"

section \<open>Sample inputs\<close>

text \<open>Five failed attempts observed with slow blocks, then one more timing update.\<close>

definition five_failures :: "fee_op list" where
  "five_failures =
     [UpdateStatistics (Some False) (Some 13), UpdateStatistics (Some False) (Some 13),
      UpdateStatistics (Some False) (Some 13), UpdateStatistics (Some False) (Some 13),
      UpdateStatistics (Some False) (Some 13), UpdateStatistics None (Some 13)]"

text \<open>Six failed attempts, then a fee computed for a base cost of 1.\<close>

definition six_failures_and_a_fee :: "fee_op list" where
  "six_failures_and_a_fee =
     [UpdateStatistics (Some False) None, UpdateStatistics (Some False) None,
      UpdateStatistics (Some False) None, UpdateStatistics (Some False) None,
      UpdateStatistics (Some False) None, UpdateStatistics (Some False) None,
      ComputePriorityFee 1]"

text \<open>A monitor that cached block 1139 at second 5, and one that cached block 100.\<close>

definition stale_monitor :: block_monitor where
  "stale_monitor =
     (block_monitor_init None None)\<lparr>current_block := Some 1139, last_updated := 5000000\<rparr>"

definition monitor_at_100 :: block_monitor where
  "monitor_at_100 =
     (block_monitor_init None None)\<lparr>current_block := Some 100, last_updated := 1000000\<rparr>"

text \<open>Four probes that fail: no API key, a bad status, a missing field, an exception.\<close>

definition failing_probes :: "(block_source \<times> int \<times> probe_reply) list" where
  "failing_probes =
     [(Taostats, 2000000, Reply 200 (Some 50)), (PolkadotSubscan, 2000001, Reply 500 (Some 50)),
      (BittensorDashboard, 2000002, Reply 200 None), (FinneyExplorer, 2000003, Raised)]"

text \<open>A credential holding 1 when registration costs 2, on a lane stopped at its third pass.\<close>

definition poor_attempt :: attempt_env where
  "poor_attempt =
     \<lparr>connect = Returns (), is_hotkey_registered = Returns False,
      get_burn_cost = Returns (Some 2), get_balance = Returns 1,
      monitor = block_monitor_init None None, clock = 0, register = Returns True\<rparr>"

definition poor_wallet :: wallet where
  "poor_wallet = \<lparr>coldkey = ''cold'', hotkey = ''hot''\<rparr>"

definition other_wallet :: wallet where
  "other_wallet = \<lparr>coldkey = ''cold'', hotkey = ''other''\<rparr>"

definition poor_schedule :: "nat \<Rightarrow> iteration_env" where
  "poor_schedule i = \<lparr>stop_at_head = (2 \<le> i), attempt = poor_attempt, stop_after = False\<rparr>"

section \<open>Properties of the fee controller\<close>

lemma update_statistics_params [simp]:
  "base_multiplier (update_statistics ok t s) = base_multiplier s"
  "max_multiplier (update_statistics ok t s) = max_multiplier s"
  "adapt_threshold (update_statistics ok t s) = adapt_threshold s"
  "recent_fees (update_statistics ok t s) = recent_fees s"
  "last_fee (update_statistics ok t s) = last_fee s"
  by (simp_all add: update_statistics_def Let_def split: option.splits)

lemma compute_priority_fee_params [simp]:
  "base_multiplier (snd (compute_priority_fee c s)) = base_multiplier s"
  "max_multiplier (snd (compute_priority_fee c s)) = max_multiplier s"
  "adapt_threshold (snd (compute_priority_fee c s)) = adapt_threshold s"
  "attempts (snd (compute_priority_fee c s)) = attempts s"
  "successes (snd (compute_priority_fee c s)) = successes s"
  "success_rate (snd (compute_priority_fee c s)) = success_rate s"
  "block_congestion (snd (compute_priority_fee c s)) = block_congestion s"
  by (simp_all add: compute_priority_fee_def Let_def)

lemma apply_fee_op_params [simp]:
  "base_multiplier (apply_fee_op x s) = base_multiplier s"
  "max_multiplier (apply_fee_op x s) = max_multiplier s"
  "adapt_threshold (apply_fee_op x s) = adapt_threshold s"
  by (cases x; simp)+

lemma run_fee_ops_params [simp]:
  "base_multiplier (run_fee_ops ops s) = base_multiplier s"
  "max_multiplier (run_fee_ops ops s) = max_multiplier s"
  "adapt_threshold (run_fee_ops ops s) = adapt_threshold s"
  unfolding run_fee_ops_def by (induction ops arbitrary: s; simp)+

lemma attempts_update_statistics:
  "attempts (update_statistics ok t s) = (if ok = None then attempts s else attempts s + 1)"
  by (simp add: update_statistics_def Let_def split: option.splits)

lemma attempts_apply_fee_op:
  "attempts (apply_fee_op x s) = (if records_outcome x then attempts s + 1 else attempts s)"
  by (cases x) (simp_all add: attempts_update_statistics)

lemma attempts_run_fee_ops:
  "attempts (run_fee_ops ops s) = attempts s + length (filter records_outcome ops)"
  unfolding run_fee_ops_def
  by (induction ops arbitrary: s) (simp_all add: attempts_apply_fee_op)

lemma recent_fees_compute:
  "recent_fees (snd (compute_priority_fee c s)) =
     (if length (recent_fees s) < 10 then recent_fees s @ [fst (compute_priority_fee c s)]
      else tl (recent_fees s) @ [fst (compute_priority_fee c s)])"
  by (cases "recent_fees s") (simp_all add: compute_priority_fee_def Let_def)

lemma recent_fees_length_step:
  "length (recent_fees s) \<le> 10 \<Longrightarrow> length (recent_fees (apply_fee_op x s)) \<le> 10"
  by (cases x) (auto simp add: recent_fees_compute)

lemma recent_fees_length_run:
  "length (recent_fees s) \<le> 10 \<Longrightarrow> length (recent_fees (run_fee_ops ops s)) \<le> 10"
  unfolding run_fee_ops_def
  by (induction ops arbitrary: s) (simp_all add: recent_fees_length_step)

lemma recent_fees_init [simp]: "recent_fees (fee_strategy_init bm mm thr) = []"
  by (simp add: fee_strategy_init_def)

lemma default_params [simp]:
  "base_multiplier default_fee_strategy = 0.5"
  "max_multiplier default_fee_strategy = 2"
  "adapt_threshold default_fee_strategy = 5"
  "block_congestion default_fee_strategy = 0"
  "attempts default_fee_strategy = 0"
  "recent_fees default_fee_strategy = []"
  by (simp_all add: default_fee_strategy_def fee_strategy_init_def)

lemmas fee_eval =
  run_fee_ops_def default_fee_strategy_def fee_strategy_init_def update_statistics_def
  compute_priority_fee_def tier_modifier_def Let_def

text \<open>The congestion indicator stays in the unit interval.\<close>

lemma congestion_update:
  "0 \<le> block_congestion s \<Longrightarrow> block_congestion s \<le> 1 \<Longrightarrow>
   0 \<le> block_congestion (update_statistics ok t s)
   \<and> block_congestion (update_statistics ok t s) \<le> 1"
  by (auto simp add: update_statistics_def Let_def split: option.splits)

lemma congestion_step:
  "0 \<le> block_congestion s \<and> block_congestion s \<le> 1 \<Longrightarrow>
   0 \<le> block_congestion (apply_fee_op x s) \<and> block_congestion (apply_fee_op x s) \<le> 1"
  by (cases x) (simp_all add: congestion_update)

lemma congestion_run:
  "0 \<le> block_congestion s \<and> block_congestion s \<le> 1 \<Longrightarrow>
   0 \<le> block_congestion (run_fee_ops ops s) \<and> block_congestion (run_fee_ops ops s) \<le> 1"
  unfolding run_fee_ops_def
proof (induction ops arbitrary: s)
  case Nil
  then show ?case by simp
next
  case (Cons x xs)
  from congestion_step [OF Cons.prems] show ?case
    by (simp add: Cons.IH)
qed

lemma tier_modifier_le_max:
  assumes "base_multiplier s = 0.5" "max_multiplier s = 2"
    and "0 \<le> block_congestion s" "block_congestion s \<le> 1"
  shows "tier_modifier s \<le> max_multiplier s"
  using assms by (simp add: tier_modifier_def)

text \<open>
  Claim C4. While at most \<open>adapt_threshold\<close> attempts have been recorded,
  \<open>compute_priority_fee\<close> returns exactly \<open>base_cost * base_multiplier\<close>: in any state
  whose attempt counter does not exceed the threshold, whatever its congestion, and so
  after any run of updates and fee computations from a fresh controller in which at most
  \<open>adapt_threshold\<close> of the updates carried an outcome.
\<close>

theorem cold_start_flat_fee:
  "(int (attempts s) \<le> adapt_threshold s \<longrightarrow>
      fst (compute_priority_fee base_cost s) = base_cost * base_multiplier s)
   \<and> (int (length (filter records_outcome ops)) \<le> thr \<longrightarrow>
      fst (compute_priority_fee base_cost (run_fee_ops ops (fee_strategy_init bm mm thr)))
        = base_cost * bm)"
proof -
  have state: "fst (compute_priority_fee c t) = c * base_multiplier t"
    if "int (attempts t) \<le> adapt_threshold t" for c t
    using that by (simp add: compute_priority_fee_def Let_def)
  have "attempts (run_fee_ops ops (fee_strategy_init bm mm thr))
          = length (filter records_outcome ops)"
    by (simp add: attempts_run_fee_ops fee_strategy_init_def)
  then have "fst (compute_priority_fee base_cost (run_fee_ops ops (fee_strategy_init bm mm thr)))
               = base_cost * bm"
    if "int (length (filter records_outcome ops)) \<le> thr"
    using that state [of "run_fee_ops ops (fee_strategy_init bm mm thr)" base_cost]
    by (simp add: fee_strategy_init_def)
  with state show ?thesis by blast
qed

theorem cold_start_flat_fee_witness:
  "int (attempts (run_fee_ops five_failures default_fee_strategy))
     \<le> adapt_threshold (run_fee_ops five_failures default_fee_strategy)
   \<and> int (length (filter records_outcome five_failures)) \<le> 5
   \<and> block_congestion (run_fee_ops five_failures default_fee_strategy) = 0.6
   \<and> fst (compute_priority_fee 8 (run_fee_ops five_failures default_fee_strategy)) = 4
   \<and> fst (compute_priority_fee 8 (run_fee_ops five_failures (fee_strategy_init 0.5 2 5))) = 4"
proof -
  have a: "int (attempts (run_fee_ops five_failures default_fee_strategy))
             \<le> adapt_threshold (run_fee_ops five_failures default_fee_strategy)"
    by (simp add: five_failures_def fee_eval)
  have b: "int (length (filter records_outcome five_failures)) \<le> 5"
    by (simp add: five_failures_def)
  have c: "block_congestion (run_fee_ops five_failures default_fee_strategy) = 0.6"
    by (simp add: five_failures_def fee_eval)
  note inst = cold_start_flat_fee [where s = "run_fee_ops five_failures default_fee_strategy"
      and base_cost = 8 and ops = five_failures and thr = 5 and bm = "0.5" and mm = 2]
  from inst a
  have d: "fst (compute_priority_fee 8 (run_fee_ops five_failures default_fee_strategy)) = 4"
    by simp
  from inst b
  have e: "fst (compute_priority_fee 8 (run_fee_ops five_failures (fee_strategy_init 0.5 2 5))) = 4"
    by simp
  from a b c d e show ?thesis by blast
qed

text \<open>
  Claim C5. With the default parameters (0.5, 2.0, 5), after any sequence of outcome
  updates, timing updates and fee computations, the fee computed for a non-negative
  \<open>base_cost\<close> is at most \<open>base_cost * max_multiplier\<close>: the tiered multiplier and the
  cold-start multiplier are both at most \<open>max_multiplier\<close>.
\<close>

theorem fee_never_exceeds_max_multiplier:
  assumes "0 \<le> base_cost"
  shows "fst (compute_priority_fee base_cost (run_fee_ops ops default_fee_strategy))
           \<le> base_cost * max_multiplier default_fee_strategy
         \<and> tier_modifier (run_fee_ops ops default_fee_strategy)
             \<le> max_multiplier default_fee_strategy
         \<and> base_multiplier (run_fee_ops ops default_fee_strategy)
             \<le> max_multiplier default_fee_strategy"
proof -
  let ?s = "run_fee_ops ops default_fee_strategy"
  have c: "0 \<le> block_congestion ?s \<and> block_congestion ?s \<le> 1"
    by (rule congestion_run) simp
  have t: "tier_modifier ?s \<le> 2"
    using tier_modifier_le_max [of ?s] c by simp
  have "base_cost * tier_modifier ?s \<le> base_cost * 2"
    using assms t by (rule mult_left_mono [rotated])
  moreover have "base_cost * 0.5 \<le> base_cost * 2"
    using assms by simp
  ultimately show ?thesis
    using t by (simp add: compute_priority_fee_def Let_def)
qed

theorem fee_never_exceeds_max_multiplier_witness:
  "(0::real) \<le> 10
   \<and> fst (compute_priority_fee 10 (run_fee_ops six_failures_and_a_fee default_fee_strategy)) = 15
   \<and> fst (compute_priority_fee 10 (run_fee_ops six_failures_and_a_fee default_fee_strategy))
       \<le> 10 * max_multiplier default_fee_strategy"
proof -
  have a: "(0::real) \<le> 10" by simp
  have b: "fst (compute_priority_fee 10 (run_fee_ops six_failures_and_a_fee default_fee_strategy))
             = 15"
    by (simp add: six_failures_and_a_fee_def fee_eval)
  from fee_never_exceeds_max_multiplier [OF a, of six_failures_and_a_fee] a b
  show ?thesis by blast
qed

text \<open>
  Claim C8. When the recent-fee history is empty, \<open>get_fee_statistics\<close> returns (it does
  not raise, so no division by the zero length takes place) with \<open>avg_fee\<close>, \<open>min_fee\<close>
  and \<open>max_fee\<close> all 0.0 and \<open>current_multiplier\<close> equal to \<open>base_multiplier\<close>.
\<close>

theorem empty_history_statistics:
  assumes "recent_fees s = []"
  shows "get_fee_statistics s =
           Inr \<lparr>current_multiplier = base_multiplier s, stat_success_rate = success_rate s,
                congestion = block_congestion s, avg_fee = 0, min_fee = 0, max_fee = 0\<rparr>"
  using assms by (simp add: get_fee_statistics_def)

theorem empty_history_statistics_witness:
  "recent_fees (run_fee_ops five_failures default_fee_strategy) = []
   \<and> get_fee_statistics (run_fee_ops five_failures default_fee_strategy) =
       Inr \<lparr>current_multiplier = 0.5, stat_success_rate = 0, congestion = 0.6,
            avg_fee = 0, min_fee = 0, max_fee = 0\<rparr>"
proof -
  have e: "recent_fees (run_fee_ops five_failures default_fee_strategy) = []"
    by (simp add: five_failures_def fee_eval)
  have "success_rate (run_fee_ops five_failures default_fee_strategy) = 0"
    "block_congestion (run_fee_ops five_failures default_fee_strategy) = 0.6"
    by (simp_all add: five_failures_def fee_eval)
  with empty_history_statistics [OF e] e show ?thesis by simp
qed

text \<open>
  Claim C9. In every state reached from a fresh controller the recent-fee history holds
  at most 10 entries. \<open>compute_priority_fee\<close> appends the new fee at the tail and, when
  the history already held 10 entries, drops exactly the oldest one, so the bound holds
  again afterwards; \<open>update_statistics\<close> leaves the history as it is.
\<close>

theorem recent_fees_bounded_fifo:
  "length (recent_fees (run_fee_ops ops (fee_strategy_init bm mm thr))) \<le> 10
   \<and> recent_fees (snd (compute_priority_fee c (run_fee_ops ops (fee_strategy_init bm mm thr))))
       = (if length (recent_fees (run_fee_ops ops (fee_strategy_init bm mm thr))) < 10
          then recent_fees (run_fee_ops ops (fee_strategy_init bm mm thr))
                 @ [fst (compute_priority_fee c (run_fee_ops ops (fee_strategy_init bm mm thr)))]
          else tl (recent_fees (run_fee_ops ops (fee_strategy_init bm mm thr)))
                 @ [fst (compute_priority_fee c (run_fee_ops ops (fee_strategy_init bm mm thr)))])
   \<and> length (recent_fees
        (snd (compute_priority_fee c (run_fee_ops ops (fee_strategy_init bm mm thr))))) \<le> 10
   \<and> recent_fees (update_statistics ok t (run_fee_ops ops (fee_strategy_init bm mm thr)))
       = recent_fees (run_fee_ops ops (fee_strategy_init bm mm thr))"
proof -
  let ?s = "run_fee_ops ops (fee_strategy_init bm mm thr)"
  have len: "length (recent_fees ?s) \<le> 10"
    by (rule recent_fees_length_run) simp
  have "length (recent_fees (apply_fee_op (ComputePriorityFee c) ?s)) \<le> 10"
    using len by (rule recent_fees_length_step)
  then have "length (recent_fees (snd (compute_priority_fee c ?s))) \<le> 10"
    by simp
  with len show ?thesis
    using recent_fees_compute [of c ?s] by simp
qed

text \<open>
  With a non-zero \<open>base_multiplier\<close> the expression of line 84 is \<open>base_multiplier\<close>
  again, whatever multiplier produced \<open>last_fee\<close>.
\<close>

lemma reported_multiplier_nonzero_base:
  "base_multiplier s \<noteq> 0 \<Longrightarrow> reported_multiplier s = Inr (base_multiplier s)"
  by (simp add: reported_multiplier_def py_truediv_def split: option.splits)

lemma get_fee_statistics_nonzero_base:
  assumes "base_multiplier s \<noteq> 0"
  shows "\<exists>st. get_fee_statistics s = Inr st \<and> current_multiplier st = base_multiplier s"
proof (cases "recent_fees s")
  case Nil
  then show ?thesis by (simp add: get_fee_statistics_def)
next
  case (Cons f fs)
  then show ?thesis
    using reported_multiplier_nonzero_base [OF assms]
    by (simp add: get_fee_statistics_def py_truediv_def)
qed

text \<open>
  Claim C10. The claim is that \<open>get_fee_statistics\<close> reports \<open>current_multiplier\<close> equal
  to \<open>base_multiplier\<close> in every reachable state. A controller built with
  \<open>base_multiplier = 0.0\<close>, after six failed attempts and a fee computed for a base cost
  of 1, holds \<open>last_fee = 1.5\<close>; there the inner division of line 84 divides by zero and
  \<open>get_fee_statistics\<close> raises \<open>ZeroDivisionError\<close> instead of reporting anything.
\<close>

theorem zero_base_multiplier_statistics_raise:
  "last_fee (run_fee_ops six_failures_and_a_fee (fee_strategy_init 0 2 5)) = Some 1.5
   \<and> get_fee_statistics (run_fee_ops six_failures_and_a_fee (fee_strategy_init 0 2 5))
       = Inl ZeroDivisionError"
  by (simp add: six_failures_and_a_fee_def run_fee_ops_def fee_strategy_init_def
      update_statistics_def compute_priority_fee_def tier_modifier_def Let_def
      get_fee_statistics_def reported_multiplier_def py_truediv_def)

section \<open>Properties of the block monitor\<close>

lemma py_min_nonempty: "xs \<noteq> [] \<Longrightarrow> \<exists>v. py_min xs = Inr v"
  by (cases xs) simp_all

lemma py_max_nonempty: "xs \<noteq> [] \<Longrightarrow> \<exists>v. py_max xs = Inr v"
  by (cases xs) simp_all

lemma py_max_Max: "xs \<noteq> [] \<Longrightarrow> py_max xs = Inr (Max (set xs))"
proof (cases xs)
  case (Cons a list)
  then show ?thesis using Max.set_eq_fold [of a list] by simp
qed simp

lemma py_min_Min: "xs \<noteq> [] \<Longrightarrow> py_min xs = Inr (Min (set xs))"
proof (cases xs)
  case (Cons a list)
  then show ?thesis using Min.set_eq_fold [of a list] by simp
qed simp

lemma block_window_nonempty: "BLOCK_WINDOW \<noteq> []"
  unfolding BLOCK_WINDOW_def by (subst upto.simps) simp

lemma py_max_BLOCK_WINDOW: "py_max BLOCK_WINDOW = Inr 59"
  using py_max_Max [OF block_window_nonempty] by (simp add: BLOCK_WINDOW_def)

lemma py_min_BLOCK_WINDOW: "py_min BLOCK_WINDOW = Inr 10"
  using py_min_Min [OF block_window_nonempty] by (simp add: BLOCK_WINDOW_def)

text \<open>
  Claim C3. For every \<open>tempo > 0\<close>, every non-empty window inside \<open>[0, tempo)\<close> and
  every block height \<open>h\<close>, \<open>_get_window_info\<close> returns a dictionary whose \<open>in_window\<close>
  is true exactly when \<open>h mod tempo\<close> is a member of the window.
\<close>

theorem window_membership:
  assumes "0 < tempo m" and "block_window m \<noteq> []"
    and "set (block_window m) \<subseteq> {0..<tempo m}"
  shows "\<exists>wi. get_window_info m (Some h) = Inr wi
              \<and> in_window wi = (h mod tempo m \<in> set (block_window m))"
proof (cases "h mod tempo m \<in> set (block_window m)")
  case True
  obtain mx where mx: "py_max (block_window m) = Inr mx"
    using py_max_nonempty [OF assms(2)] by blast
  obtain mn where mn: "py_min (block_window m) = Inr mn"
    using py_min_nonempty [OF assms(2)] by blast
  show ?thesis
    using assms(1) True mx mn by (simp add: get_window_info_def Let_def)
next
  case False
  have "map (\<lambda>w. if w > h mod tempo m then w - h mod tempo m else tempo m - h mod tempo m + w)
          (block_window m) \<noteq> []"
    using assms(2) by simp
  then obtain nw where
    "py_min (map (\<lambda>w. if w > h mod tempo m then w - h mod tempo m else tempo m - h mod tempo m + w)
       (block_window m)) = Inr nw"
    using py_min_nonempty by blast
  then show ?thesis
    using assms(1) False by (simp add: get_window_info_def Let_def)
qed

theorem window_membership_witness:
  "0 < tempo stale_monitor \<and> block_window stale_monitor \<noteq> []
   \<and> set (block_window stale_monitor) \<subseteq> {0..<tempo stale_monitor}
   \<and> (\<exists>wi. get_window_info stale_monitor (Some 1139) = Inr wi
         \<and> in_window wi = (1139 mod tempo stale_monitor \<in> set (block_window stale_monitor)))"
proof -
  have a: "0 < tempo stale_monitor"
    by (simp add: stale_monitor_def block_monitor_init_def TEMPO_def)
  have b: "block_window stale_monitor \<noteq> []"
    using block_window_nonempty by (simp add: stale_monitor_def block_monitor_init_def)
  have c: "set (block_window stale_monitor) \<subseteq> {0..<tempo stale_monitor}"
    by (simp add: stale_monitor_def block_monitor_init_def TEMPO_def BLOCK_WINDOW_def)
  from window_membership [OF a b c, of 1139] a b c show ?thesis by blast
qed

text \<open>
  Claim C6. With \<open>tempo = 360\<close> and the window \<open>range(10, 60)\<close>, every block height
  \<open>h\<close> with \<open>h mod 360 = 59\<close> is reported in the window with
  \<open>blocks_left = (59 - 10) + 360 = 409\<close>: \<open>max(window) - 59\<close> is 0, so the wrap rule
  of lines 68 and 69 applies.
\<close>

theorem last_eligible_offset_wraps:
  assumes "tempo m = TEMPO" and "block_window m = BLOCK_WINDOW" and "h mod 360 = 59"
  shows "\<exists>wi. get_window_info m (Some h) = Inr wi \<and> wi = WindowActive 59 409
              \<and> in_window wi \<and> blocks_left wi = (59 - 10) + 360"
proof -
  have "(59::int) \<in> set BLOCK_WINDOW"
    by (simp add: BLOCK_WINDOW_def)
  then show ?thesis
    using assms py_max_BLOCK_WINDOW py_min_BLOCK_WINDOW
    by (simp add: get_window_info_def Let_def TEMPO_def)
qed

theorem last_eligible_offset_wraps_witness:
  "tempo stale_monitor = TEMPO \<and> block_window stale_monitor = BLOCK_WINDOW
   \<and> (1139::int) mod 360 = 59
   \<and> get_window_info stale_monitor (Some 1139) = Inr (WindowActive 59 409)"
proof -
  have a: "tempo stale_monitor = TEMPO" and b: "block_window stale_monitor = BLOCK_WINDOW"
    by (simp_all add: stale_monitor_def block_monitor_init_def)
  have c: "(1139::int) mod 360 = 59" by simp
  from last_eligible_offset_wraps [OF a b c] a b c show ?thesis by simp
qed

text \<open>
  Claim C7. \<open>get_current_block\<close> returns the unknown result \<open>(None, None)\<close> whenever no
  height was ever cached or the cached observation is at least 10 seconds old, even
  with a cached height present; it returns a height with its window state only when
  that height is the cached one and the observation is younger than 10 seconds, and in
  that case it does return them.
\<close>

theorem stale_observation_unknown:
  "((current_block m = None \<or> freshness_horizon \<le> now - last_updated m)
      \<longrightarrow> get_current_block m now = Inr None)
   \<and> (get_current_block m now = Inr (Some (b, wi))
      \<longrightarrow> current_block m = Some b \<and> now - last_updated m < freshness_horizon
          \<and> get_window_info m (Some b) = Inr wi)
   \<and> (current_block m = Some b \<and> now - last_updated m < freshness_horizon
        \<and> get_window_info m (Some b) = Inr wi
      \<longrightarrow> get_current_block m now = Inr (Some (b, wi)))"
  by (auto simp add: get_current_block_def split: option.splits sum.splits if_splits)

theorem stale_observation_unknown_witness:
  "current_block stale_monitor = Some 1139
   \<and> freshness_horizon \<le> 15000000 - last_updated stale_monitor
   \<and> get_current_block stale_monitor 15000000 = Inr None
   \<and> 14999999 - last_updated stale_monitor < freshness_horizon
   \<and> get_window_info stale_monitor (Some 1139) = Inr (WindowActive 59 409)
   \<and> get_current_block stale_monitor 14999999 = Inr (Some (1139, WindowActive 59 409))
   \<and> get_current_block (block_monitor_init None None) 14999999 = Inr None"
proof -
  have cb: "current_block stale_monitor = Some 1139"
    by (simp add: stale_monitor_def)
  have old: "freshness_horizon \<le> 15000000 - last_updated stale_monitor"
    by (simp add: stale_monitor_def freshness_horizon_def)
  have fresh: "14999999 - last_updated stale_monitor < freshness_horizon"
    by (simp add: stale_monitor_def freshness_horizon_def)
  have "(59::int) \<in> set BLOCK_WINDOW"
    by (simp add: BLOCK_WINDOW_def)
  then have wi: "get_window_info stale_monitor (Some 1139) = Inr (WindowActive 59 409)"
    using py_max_BLOCK_WINDOW py_min_BLOCK_WINDOW
    by (simp add: get_window_info_def Let_def TEMPO_def stale_monitor_def block_monitor_init_def)
  have none: "current_block (block_monitor_init None None) = None"
    by (simp add: block_monitor_init_def)
  from stale_observation_unknown [of stale_monitor 15000000 1139 "WindowActive 59 409"] old
  have r1: "get_current_block stale_monitor 15000000 = Inr None" by blast
  from stale_observation_unknown [of stale_monitor 14999999 1139 "WindowActive 59 409"] cb fresh wi
  have r2: "get_current_block stale_monitor 14999999 = Inr (Some (1139, WindowActive 59 409))"
    by blast
  from stale_observation_unknown [of "block_monitor_init None None" 14999999 0 Unknown] none
  have r3: "get_current_block (block_monitor_init None None) 14999999 = Inr None" by blast
  from cb old fresh wi r1 r2 r3 show ?thesis by blast
qed

lemma check_reply_cases:
  "check_reply now r m = (False, m)
   \<or> (\<exists>n. r = Reply 200 (Some n)
          \<and> check_reply now r m = (True, m\<lparr>current_block := Some n, last_updated := now\<rparr>))"
  by (simp add: check_reply_def split: probe_reply.splits option.splits sum.splits)

lemma check_via_cases:
  "check_via src now r m = (False, m)
   \<or> (\<exists>n. r = Reply 200 (Some n)
          \<and> check_via src now r m = (True, m\<lparr>current_block := Some n, last_updated := now\<rparr>))"
  using check_reply_cases [of now r m]
  by (cases src)
    (auto simp add: check_via_taostats_def check_via_subscan_def check_via_polkadot_subscan_def
      check_via_bittensor_dashboard_def check_via_finney_explorer_def)

lemma try_methods_cases:
  "try_methods srcs world m = m
   \<or> (\<exists>src n. snd (world src) = Reply 200 (Some n)
          \<and> try_methods srcs world m
              = m\<lparr>current_block := Some n, last_updated := fst (world src)\<rparr>)"
proof (induction srcs)
  case Nil
  then show ?case by simp
next
  case (Cons src rest)
  from check_via_cases [of src "fst (world src)" "snd (world src)" m]
  show ?case
  proof
    assume "check_via src (fst (world src)) (snd (world src)) m = (False, m)"
    with Cons.IH show ?thesis by simp
  next
    assume "\<exists>n. snd (world src) = Reply 200 (Some n)
      \<and> check_via src (fst (world src)) (snd (world src)) m
          = (True, m\<lparr>current_block := Some n, last_updated := fst (world src)\<rparr>)"
    then obtain n where "snd (world src) = Reply 200 (Some n)"
      and "check_via src (fst (world src)) (snd (world src)) m
             = (True, m\<lparr>current_block := Some n, last_updated := fst (world src)\<rparr>)"
      by blast
    then have "snd (world src) = Reply 200 (Some n)
      \<and> try_methods (src # rest) world m
          = m\<lparr>current_block := Some n, last_updated := fst (world src)\<rparr>"
      by simp
    then show ?thesis by blast
  qed
qed

lemma run_probes_all_failed:
  "list_all (\<lambda>(src, now, r). \<not> fst (check_via src now r m)) ps \<Longrightarrow> run_probes ps m = m"
proof (induction ps)
  case Nil
  then show ?case by simp
next
  case (Cons p ps)
  obtain src now r where p: "p = (src, now, r)" by (cases p)
  from Cons.prems p have "\<not> fst (check_via src now r m)" by simp
  with check_via_cases [of src now r m] have "snd (check_via src now r m) = m" by auto
  with Cons p show ?case by simp
qed

text \<open>
  Claim C2, as the code has it. A probe that fails leaves the monitor (cached height and
  timestamp) exactly as it was, and so does any sequence of failing probes. A probe
  that succeeds got status 200 with a block field \<open>n\<close> and stores \<open>n\<close> and the clock
  reading whatever height was cached before: none of the probes compares \<open>n\<close> with the
  cached height. One polling pass changes the monitor in no other way.
\<close>

theorem probe_overwrites_unconditionally:
  "(\<not> fst (check_via src now r m) \<longrightarrow> snd (check_via src now r m) = m)
   \<and> (fst (check_via src now r m) \<longrightarrow>
        (\<exists>n. r = Reply 200 (Some n)
           \<and> snd (check_via src now r m) = m\<lparr>current_block := Some n, last_updated := now\<rparr>))
   \<and> (list_all (\<lambda>(src, now, r). \<not> fst (check_via src now r m)) ps \<longrightarrow> run_probes ps m = m)
   \<and> (monitor_tick world m = m
       \<or> (\<exists>src n. snd (world src) = Reply 200 (Some n)
             \<and> monitor_tick world m
                 = m\<lparr>current_block := Some n, last_updated := fst (world src)\<rparr>))"
  using check_via_cases [of src now r m] run_probes_all_failed [of m ps]
    try_methods_cases [of methods world m]
  unfolding monitor_tick_def by auto

theorem probe_overwrites_unconditionally_witness:
  "\<not> fst (check_via Taostats 2000000 (Reply 200 (Some 50)) monitor_at_100)
   \<and> snd (check_via Taostats 2000000 (Reply 200 (Some 50)) monitor_at_100) = monitor_at_100
   \<and> fst (check_via PolkadotSubscan 2000000 (Reply 200 (Some 50)) monitor_at_100)
   \<and> snd (check_via PolkadotSubscan 2000000 (Reply 200 (Some 50)) monitor_at_100)
       = monitor_at_100\<lparr>current_block := Some 50, last_updated := 2000000\<rparr>
   \<and> list_all (\<lambda>(src, now, r). \<not> fst (check_via src now r monitor_at_100)) failing_probes
   \<and> run_probes failing_probes monitor_at_100 = monitor_at_100"
proof -
  have a: "\<not> fst (check_via Taostats 2000000 (Reply 200 (Some 50)) monitor_at_100)"
    by (simp add: monitor_at_100_def block_monitor_init_def check_via_taostats_def key_missing_def)
  have b: "fst (check_via PolkadotSubscan 2000000 (Reply 200 (Some 50)) monitor_at_100)"
    by (simp add: monitor_at_100_def block_monitor_init_def check_via_polkadot_subscan_def
        check_reply_def get_window_info_def TEMPO_def BLOCK_WINDOW_def Let_def py_min_Min
        split: sum.splits)
  have c: "list_all (\<lambda>(src, now, r). \<not> fst (check_via src now r monitor_at_100)) failing_probes"
    by (simp add: failing_probes_def monitor_at_100_def block_monitor_init_def
        check_via_taostats_def key_missing_def check_via_polkadot_subscan_def
        check_via_bittensor_dashboard_def check_via_finney_explorer_def check_reply_def)
  note inst = probe_overwrites_unconditionally [where m = monitor_at_100 and now = 2000000
      and r = "Reply 200 (Some 50)" and ps = failing_probes]
  from inst [where src = Taostats] a
  have r1: "snd (check_via Taostats 2000000 (Reply 200 (Some 50)) monitor_at_100) = monitor_at_100"
    by blast
  from inst [where src = PolkadotSubscan] b
  have r2: "snd (check_via PolkadotSubscan 2000000 (Reply 200 (Some 50)) monitor_at_100)
              = monitor_at_100\<lparr>current_block := Some 50, last_updated := 2000000\<rparr>"
    by auto
  from inst [where src = Taostats] c
  have r3: "run_probes failing_probes monitor_at_100 = monitor_at_100"
    by blast
  from a b c r1 r2 r3 show ?thesis by blast
qed

text \<open>
  The claim as stated fails: with block 100 cached, a successful probe that reads
  block 50 replaces the cached height by the smaller value, through the Polkadot probe
  and through the TAO Stats probe alike.
\<close>

theorem stale_probe_downgrades_height:
  "current_block monitor_at_100 = Some 100
   \<and> fst (check_via_polkadot_subscan 2000000 (Reply 200 (Some 50)) monitor_at_100)
   \<and> current_block (snd (check_via_polkadot_subscan 2000000 (Reply 200 (Some 50)) monitor_at_100))
       = Some 50
   \<and> fst (check_via_taostats 2000000 (Reply 200 (Some 50))
            (monitor_at_100\<lparr>taostats_api_key := Some ''key''\<rparr>))
   \<and> current_block (snd (check_via_taostats 2000000 (Reply 200 (Some 50))
            (monitor_at_100\<lparr>taostats_api_key := Some ''key''\<rparr>))) = Some 50"
  by (simp add: monitor_at_100_def block_monitor_init_def check_via_polkadot_subscan_def
      check_via_taostats_def key_missing_def check_reply_def get_window_info_def TEMPO_def
      BLOCK_WINDOW_def Let_def py_min_Min split: sum.splits)

section \<open>Properties of the registration loop\<close>

lemma register_neuron_underfunded:
  "underfunded env \<Longrightarrow> register_neuron env use_priority_fee fs = (False, fs)"
  by (auto simp add: underfunded_def register_neuron_def split: call.splits option.splits)

text \<open>
  Claim C1, as the code has it. When the fetched balance is below the fetched cost,
  \<open>register_neuron\<close> returns \<open>False\<close> without submitting anything and without touching
  the fee controller, and the lane treats this like any other \<open>False\<close>: unless the stop
  signal is set, the credential is appended to the tail of its lane, and the loop goes
  on with that lane, so the other credentials and, later, the same one are attempted.
\<close>

theorem underfunded_credential_requeued:
  assumes "underfunded (attempt env)"
  shows "register_neuron (attempt env) use_priority_fee fs = (False, fs)
         \<and> lane_body env use_priority_fee w rest fs
             = (if stop_after env then rest else rest @ [w], fs)
         \<and> (\<not> stop_at_head env \<longrightarrow> schedule i = env \<longrightarrow>
              register_thread (Suc fuel) schedule i use_priority_fee (w # rest) fs attempted
                = register_thread fuel schedule (Suc i) use_priority_fee
                    (if stop_after env then rest else rest @ [w]) fs (attempted @ [w]))"
  using register_neuron_underfunded [OF assms]
  by (simp add: lane_body_def)

theorem underfunded_credential_requeued_witness:
  "underfunded (attempt (poor_schedule 0)) \<and> \<not> stop_at_head (poor_schedule 0)
   \<and> register_neuron (attempt (poor_schedule 0)) True default_fee_strategy
       = (False, default_fee_strategy)
   \<and> lane_body (poor_schedule 0) True poor_wallet [other_wallet] default_fee_strategy
       = ([other_wallet, poor_wallet], default_fee_strategy)
   \<and> register_thread (Suc (Suc 0)) poor_schedule 0 True [poor_wallet, other_wallet]
         default_fee_strategy []
       = register_thread (Suc 0) poor_schedule (Suc 0) True [other_wallet, poor_wallet]
           default_fee_strategy [poor_wallet]"
proof -
  have a: "underfunded (attempt (poor_schedule 0))"
    by (simp add: poor_schedule_def poor_attempt_def underfunded_def)
  have b: "\<not> stop_at_head (poor_schedule 0)"
    by (simp add: poor_schedule_def)
  have c: "\<not> stop_after (poor_schedule 0)"
    by (simp add: poor_schedule_def)
  have d: "poor_schedule 0 = poor_schedule 0" by simp
  from underfunded_credential_requeued [OF a, of True default_fee_strategy poor_wallet
      "[other_wallet]" poor_schedule 0 "Suc 0" "[]"] a b c d
  show ?thesis by simp
qed

text \<open>
  The claim as stated fails: a credential holding 1 when the cost is 2 is put back on
  its lane, and a lane holding only that credential attempts it a second time before
  the stop signal ends the loop.
\<close>

theorem underfunded_credential_retried:
  "get_balance poor_attempt = Returns 1 \<and> get_burn_cost poor_attempt = Returns (Some 2)
   \<and> register_neuron poor_attempt True default_fee_strategy = (False, default_fee_strategy)
   \<and> lane_body (poor_schedule 0) True poor_wallet [] default_fee_strategy
       = ([poor_wallet], default_fee_strategy)
   \<and> register_thread 3 poor_schedule 0 True [poor_wallet] default_fee_strategy []
       = Some ([poor_wallet], default_fee_strategy, [poor_wallet, poor_wallet])"
  by (simp add: poor_attempt_def poor_schedule_def register_neuron_def lane_body_def
      numeral_3_eq_3)

end
